theory Spec2Isabelle
  imports Main "HOL-Library.AList" "HOL-Library.Sublist" "HOL-Library.Word"
begin

section \<open>Errors and results\<close>

text \<open>
  Go errors are values: the two sentinels of package storage, a formatted message
  (\<open>errors.Errorf\<close>), an error wrapped with a message (\<open>errors.Wrap\<close>,
  \<open>errors.Wrapf\<close>), and a failure of the transport (\<open>net.Dial\<close>,
  \<open>conn.Read\<close>, \<open>conn.Write\<close>) or of any other collaborator.
\<close>

datatype error =
    ErrASNotCached
  | ErrStorageNotFound
  | Errorf string
  | Wrap error string
  | IOError string

text \<open>
  A call of the package either returns a value with a nil error, returns a nil value with
  an error, or panics; a panic unwinds to the caller and is not an error return.
\<close>

datatype 'a result = Return 'a | Error error | Panic error

section \<open>Formatting\<close>

text \<open>The verb \<open>%d\<close> of \<open>fmt\<close>: decimal digits, a minus sign for a negative number.\<close>

fun digits :: "nat \<Rightarrow> string" where
  "digits n = (if n < 10 then [char_of (48 + n)] else digits (n div 10) @ [char_of (48 + n mod 10)])"

definition fmt_d :: "int \<Rightarrow> string" where
  "fmt_d i = (if i < 0 then CHR ''-'' # digits (nat (- i)) else digits (nat i))"

section \<open>Network blocks\<close>

text \<open>
  \<open>net.IPNet\<close> of the Go standard library: the address and the mask as byte slices,
  four bytes long for an IPv4 network and sixteen for an IPv6 one.
\<close>

record IPNet =
  IP :: "8 word list"
  Mask :: "8 word list"

definition isIPv4 :: "IPNet \<Rightarrow> bool" where
  "isIPv4 n = (length (IP n) = 4)"

definition isIPv6 :: "IPNet \<Rightarrow> bool" where
  "isIPv6 n = (length (IP n) = 16)"

text \<open>
  \<open>net.ParseCIDR\<close> belongs to the standard library, not to this repository: every
  function below takes it as the parameter \<open>P\<close>, \<open>Some\<close> for the network it returns
  and \<open>None\<close> for its error.
\<close>

type_synonym parser = "string \<Rightarrow> IPNet option"

section \<open>The connection\<close>

text \<open>
  A \<open>net.Conn\<close> as the client sees it: \<open>rx\<close> holds the bytes the server still
  sends (once they are used up \<open>Read\<close> fails, as on a closed connection), \<open>wr\<close> the
  outcome of the \<open>Write\<close> calls to come (once it is used up every write succeeds),
  \<open>tx\<close> the payloads written so far, one per successful \<open>Write\<close>. A server that
  stays silent, on which \<open>Read\<close> blocks for ever, has no counterpart here.
\<close>

record conn =
  rx :: string
  wr :: "bool list"
  tx :: "string list"
  closed :: bool

definition conn_Write :: "conn \<Rightarrow> string \<Rightarrow> error option \<times> conn" where
  "conn_Write c s =
     (case wr c of
        [] \<Rightarrow> (None, c\<lparr>tx := tx c @ [s]\<rparr>)
      | ok # rest \<Rightarrow>
          if ok then (None, c\<lparr>wr := rest, tx := tx c @ [s]\<rparr>)
          else (Some (IOError ''write''), c\<lparr>wr := rest\<rparr>))"

definition conn_Close :: "conn \<Rightarrow> conn" where
  "conn_Close c = c\<lparr>closed := True\<rparr>"

text \<open>\<open>strings.TrimRight(s, "\r")\<close>: every trailing carriage return goes.\<close>

definition TrimRight_cr :: "string \<Rightarrow> string" where
  "TrimRight_cr s = rev (dropWhile (\<lambda>b. b = CHR 0x0D) (rev s))"

text \<open>
  \<open>readLine\<close>: one byte per \<open>Read\<close> until a newline; \<open>resp\<close> is the buffer
  (a \<open>bytes.Buffer\<close>, whose \<open>Write\<close> returns no error). The function works on the
  bytes to come and returns those left.
\<close>

fun readLine_loop :: "string \<Rightarrow> string \<Rightarrow> (error + string) \<times> string" where
  "readLine_loop [] resp =
     (Inl (Wrap (IOError ''EOF'') ''failed to read next byte from connection''), [])"
| "readLine_loop (b # bs) resp =
     (if b = CHR ''\<newline>'' then (Inr (TrimRight_cr resp), bs)
      else readLine_loop bs (resp @ [b]))"

definition readLine :: "conn \<Rightarrow> (error + string) \<times> conn" where
  "readLine c = (case readLine_loop (rx c) [] of (r, rest) \<Rightarrow> (r, c\<lparr>rx := rest\<rparr>))"

section \<open>One query: fetch\<close>

text \<open>\<open>strings.Split(line, " ")\<close>: one token more than there are spaces.\<close>

fun Split_sp :: "string \<Rightarrow> string list" where
  "Split_sp [] = [[]]"
| "Split_sp (b # bs) =
     (if b = CHR '' '' then [] # Split_sp bs
      else (case Split_sp bs of [] \<Rightarrow> [[b]] | t # ts \<Rightarrow> (b # t) # ts))"

text \<open>The inner loop of \<open>fetch\<close> over the tokens of one data line.\<close>

fun parse_nets :: "parser \<Rightarrow> string \<Rightarrow> string list \<Rightarrow> IPNet list \<Rightarrow> error + IPNet list" where
  "parse_nets P asn [] response = Inr response"
| "parse_nets P asn (n # nets) response =
     (case P n of
        None \<Rightarrow> Inl (Errorf (''failed to parse network '' @ n @ '' for as '' @ asn))
      | Some nt \<Rightarrow> parse_nets P asn nets (response @ [nt]))"

datatype pstate = Start | Response

lemma readLine_loop_shorter:
  "readLine_loop bs resp = (Inr l, rest) \<Longrightarrow> length rest < length bs"
  by (induction bs arbitrary: resp) (auto split: if_splits intro: less_SucI)

lemma readLine_shorter:
  "readLine c = (Inr l, c') \<Longrightarrow> length (rx c') < length (rx c)"
  by (auto simp: readLine_def split: prod.splits dest: readLine_loop_shorter)

function fetch_loop :: "parser \<Rightarrow> string \<Rightarrow> pstate \<Rightarrow> IPNet list \<Rightarrow> conn \<Rightarrow> IPNet list result \<times> conn" where
  "fetch_loop P asn state response c =
     (case readLine c of
        (Inl err, c') \<Rightarrow> (Panic err, c')
      | (Inr line, c') \<Rightarrow>
          if line = ''D'' then (Error (Errorf (''as '' @ asn @ '' not found'')), c')
          else if line = ''C'' then (Return response, c')
          else (case state of
              Start \<Rightarrow>
                if length line \<le> 0 then (Error (Errorf (''empty response for as '' @ asn)), c')
                else if hd line \<noteq> CHR ''A''
                  then (Error (Errorf (''received invalid response for as '' @ asn)), c')
                else fetch_loop P asn Response response c'
            | Response \<Rightarrow>
                (case parse_nets P asn (Split_sp line) response of
                   Inl err \<Rightarrow> (Error err, c')
                 | Inr response' \<Rightarrow> fetch_loop P asn Response response' c')))"
  by pat_completeness auto
termination
  by (relation "measure (\<lambda>(P, asn, state, response, c). length (rx c))")
     (auto dest: readLine_shorter [OF sym])

declare fetch_loop.simps [simp del]

text \<open>\<open>fetch\<close> from the write of the command on.\<close>

definition fetch_cmd :: "parser \<Rightarrow> conn \<Rightarrow> string \<Rightarrow> string \<Rightarrow> IPNet list result \<times> conn" where
  "fetch_cmd P c asn cmd =
     (case conn_Write c cmd of
        (Some err, c') \<Rightarrow> (Error (Wrap err (''failed to fetch ip addresses for '' @ asn)), c')
      | (None, c') \<Rightarrow> fetch_loop P asn Start [] c')"

definition fetch :: "parser \<Rightarrow> conn \<Rightarrow> string \<Rightarrow> int \<Rightarrow> IPNet list result \<times> conn" where
  "fetch P c asn version =
     (if version = 4 then fetch_cmd P c asn (''!gAS'' @ asn @ ''\<newline>'')
      else if version = 6 then fetch_cmd P c asn (''!6AS'' @ asn @ ''\<newline>'')
      else (Error (Errorf (''unknown ip protocol version '' @ fmt_d version)), c))"

section \<open>The plain fetcher\<close>

text \<open>
  The value of one AS number in the result, \<open>map[string][]*net.IPNet\<close>: the code
  always writes both keys, \<open>"ipv4"\<close> and \<open>"ipv6"\<close>, so the inner map is a record
  of the two. The result itself is an association list with distinct keys, kept in the
  order the keys were first written (Go leaves the order of a map's keys open).
\<close>

record ipversions =
  nets_ipv4 :: "IPNet list"
  nets_ipv6 :: "IPNet list"

type_synonym resmap = "(string \<times> ipversions) list"

record fetcher =
  host :: string
  port :: int

text \<open>
  The network: \<open>dials\<close> holds the outcome of the \<open>net.Dial\<close> calls to come,
  \<open>None\<close> for a refused one and otherwise the bytes the server will send and the
  outcomes of the writes (with none left a dial is refused); \<open>conns\<close> holds the
  connections opened so far, as the client left them.
\<close>

record world =
  dials :: "(string \<times> bool list) option list"
  conns :: "conn list"

definition net_Dial :: "world \<Rightarrow> conn option \<times> world" where
  "net_Dial w =
     (case dials w of
        [] \<Rightarrow> (None, w)
      | None # ds \<Rightarrow> (None, w\<lparr>dials := ds\<rparr>)
      | Some (r, ws) # ds \<Rightarrow>
          (Some \<lparr>rx = r, wr = ws, tx = [], closed = False\<rparr>, w\<lparr>dials := ds\<rparr>))"

text \<open>The body of the loop of \<open>Fetch\<close> for the AS number \<open>v\<close>.\<close>

definition Fetch_one :: "parser \<Rightarrow> bool \<Rightarrow> bool \<Rightarrow> string \<Rightarrow> resmap \<Rightarrow> conn \<Rightarrow> resmap result \<times> conn" where
  "Fetch_one P ipv4 ipv6 v result c =
     (let result1 = AList.update v \<lparr>nets_ipv4 = [], nets_ipv6 = []\<rparr> result in
      case (if ipv4 then
              (case fetch P c v 4 of
                 (Return nt, c') \<Rightarrow> (Return (AList.update v \<lparr>nets_ipv4 = nt, nets_ipv6 = []\<rparr> result1), c')
               | (Error err, c') \<Rightarrow> (Error err, c')
               | (Panic err, c') \<Rightarrow> (Panic err, c'))
            else (Return result1, c)) of
        (Return result2, c2) \<Rightarrow>
          (if ipv6 then
             (case fetch P c2 v 6 of
                (Return nt, c') \<Rightarrow>
                  (Return (AList.update v
                     \<lparr>nets_ipv4 = (case map_of result2 v of Some e \<Rightarrow> nets_ipv4 e | None \<Rightarrow> []),
                      nets_ipv6 = nt\<rparr> result2), c')
              | (Error err, c') \<Rightarrow> (Error err, c')
              | (Panic err, c') \<Rightarrow> (Panic err, c'))
           else (Return result2, c2))
      | (Error err, c2) \<Rightarrow> (Error err, c2)
      | (Panic err, c2) \<Rightarrow> (Panic err, c2))"

fun Fetch_loop :: "parser \<Rightarrow> bool \<Rightarrow> bool \<Rightarrow> string list \<Rightarrow> resmap \<Rightarrow> conn \<Rightarrow> resmap result \<times> conn" where
  "Fetch_loop P ipv4 ipv6 [] result c = (Return result, c)"
| "Fetch_loop P ipv4 ipv6 (v # vs) result c =
     (case Fetch_one P ipv4 ipv6 v result c of
        (Return result', c') \<Rightarrow> Fetch_loop P ipv4 ipv6 vs result' c'
      | (Error err, c') \<Rightarrow> (Error err, c')
      | (Panic err, c') \<Rightarrow> (Panic err, c'))"

text \<open>\<open>Fetch\<close> between the dial and the deferred function.\<close>

definition Fetch_conn :: "parser \<Rightarrow> bool \<Rightarrow> bool \<Rightarrow> string list \<Rightarrow> conn \<Rightarrow> resmap result \<times> conn" where
  "Fetch_conn P ipv4 ipv6 asn c =
     (case conn_Write c ''!!\<newline>'' of
        (Some err, c') \<Rightarrow> (Error (Wrap err ''failed to enable multicommand mode''), c')
      | (None, c') \<Rightarrow> Fetch_loop P ipv4 ipv6 asn [] c')"

text \<open>The deferred function: the exit command, its error dropped, and the close.\<close>

definition Fetch_deferred :: "conn \<Rightarrow> conn" where
  "Fetch_deferred c = conn_Close (snd (conn_Write c ''exit\<newline>''))"

definition Fetch :: "fetcher \<Rightarrow> parser \<Rightarrow> bool \<Rightarrow> bool \<Rightarrow> string list \<Rightarrow> world \<Rightarrow> resmap result \<times> world" where
  "Fetch f P ipv4 ipv6 asn w =
     (if length asn = 0 then (Return [], w)
      else case net_Dial w of
          (None, w') \<Rightarrow>
            (Error (Wrap (IOError ''dial'')
               (''failed to connect to '' @ host f @ '':'' @ fmt_d (port f))), w')
        | (Some c, w') \<Rightarrow>
            (case Fetch_conn P ipv4 ipv6 asn c of
               (r, c') \<Rightarrow> (r, w'\<lparr>conns := conns w' @ [Fetch_deferred c']\<rparr>)))"

section \<open>Package storage\<close>

record ASStorage =
  AS :: string
  IPv4 :: "IPNet list"
  IPv6 :: "IPNet list"
  FetchedIPv4 :: bool
  FetchedIPv6 :: bool

text \<open>The zero value \<open>ASStorage{}\<close>.\<close>

definition ASStorage_zero :: ASStorage where
  "ASStorage_zero = \<lparr>AS = [], IPv4 = [], IPv6 = [], FetchedIPv4 = False, FetchedIPv6 = False\<rparr>"

text \<open>
  The interface \<open>Storage\<close> over a backend with state \<open>'s\<close>. \<open>Get\<close> returns a
  record and an error together, as the Go method does: the caller can read the record
  whatever the error is.
\<close>

record 's Storage =
  Get :: "string \<Rightarrow> 's \<Rightarrow> (ASStorage \<times> error option) \<times> 's"
  Set :: "ASStorage \<Rightarrow> 's \<Rightarrow> error option \<times> 's"

record StorageOptions =
  Name :: string
  TTL :: int

text \<open>
  The in-memory backend. A \<open>time.Time\<close> is a reading of the clock and a
  \<open>time.Duration\<close> a difference of two, both in nanoseconds; \<open>time.Now()\<close> is the
  argument \<open>now\<close> of the two methods, and \<open>time.Since(t)\<close> is \<open>now - t\<close>. The
  difference is exact: \<open>time.Since\<close> saturates at the bounds of 64 bits, some 292
  years, which two readings of one process's clock do not reach.
\<close>

record memory =
  stor :: "string \<rightharpoonup> ASStorage"
  ttl :: "string \<rightharpoonup> int"
  maxTTL :: int

definition newMemory :: "StorageOptions \<Rightarrow> error + memory" where
  "newMemory opts = Inr \<lparr>stor = Map.empty, ttl = Map.empty, maxTTL = TTL opts\<rparr>"

definition memory_Get :: "memory \<Rightarrow> int \<Rightarrow> string \<Rightarrow> (ASStorage \<times> error option) \<times> memory" where
  "memory_Get m now asn =
     (case stor m asn of
        None \<Rightarrow> ((ASStorage_zero, Some ErrASNotCached), m)
      | Some v \<Rightarrow>
          (case ttl m asn of
             None \<Rightarrow> ((ASStorage_zero, Some ErrASNotCached), m\<lparr>stor := (stor m)(asn := None)\<rparr>)
           | Some t \<Rightarrow>
               if now - t > maxTTL m
               then ((ASStorage_zero, Some ErrASNotCached),
                     m\<lparr>stor := (stor m)(asn := None), ttl := (ttl m)(asn := None)\<rparr>)
               else ((v, None), m)))"

definition memory_Set :: "memory \<Rightarrow> int \<Rightarrow> ASStorage \<Rightarrow> error option \<times> memory" where
  "memory_Set m now r =
     (None, m\<lparr>stor := (stor m)(AS r \<mapsto> r), ttl := (ttl m)(AS r \<mapsto> now)\<rparr>)"

type_synonym storageFunc = "StorageOptions \<Rightarrow> error + memory"

definition storages :: "string \<rightharpoonup> storageFunc" where
  "storages = ['''' \<mapsto> newMemory, ''default'' \<mapsto> newMemory, ''memory'' \<mapsto> newMemory]"

definition NewStorage :: "StorageOptions \<Rightarrow> error + memory" where
  "NewStorage opts =
     (case storages (Name opts) of
        None \<Rightarrow> Inl ErrStorageNotFound
      | Some v \<Rightarrow> v opts)"

text \<open>
  The in-memory backend behind the interface: the state is the store and the number of
  calls made so far, and \<open>clk k\<close> is the reading of the clock during call \<open>k\<close>.
\<close>

definition memory_Storage :: "(nat \<Rightarrow> int) \<Rightarrow> (memory \<times> nat) Storage" where
  "memory_Storage clk =
     \<lparr>Get = (\<lambda>asn (m, k). case memory_Get m (clk k) asn of (r, m') \<Rightarrow> (r, (m', Suc k))),
      Set = (\<lambda>r (m, k). case memory_Set m (clk k) r of (e, m') \<Rightarrow> (e, (m', Suc k)))\<rparr>"

section \<open>The cached fetcher\<close>

text \<open>
  The first loop of \<open>cachedFetcher.Fetch\<close>: the cached entries go to \<open>result\<close>,
  the other AS numbers to \<open>uncached\<close>; an error of \<open>Get\<close> that passes the first
  test ends the call.
\<close>

fun cached_loop :: "'s Storage \<Rightarrow> bool \<Rightarrow> bool \<Rightarrow> string list \<Rightarrow> resmap \<Rightarrow> string list \<Rightarrow> 's
    \<Rightarrow> (error + resmap \<times> string list) \<times> 's" where
  "cached_loop S ipv4 ipv6 [] result uncached s = (Inr (result, uncached), s)"
| "cached_loop S ipv4 ipv6 (asn # rest) result uncached s =
     (case Get S asn s of
        ((r, err), s') \<Rightarrow>
          if err = Some ErrASNotCached \<or> (ipv4 \<and> \<not> FetchedIPv4 r) \<or> (ipv6 \<and> \<not> FetchedIPv6 r)
          then cached_loop S ipv4 ipv6 rest result (uncached @ [asn]) s'
          else (case err of
              Some e \<Rightarrow> (Inl (Wrap e (''failed to fetch asn '' @ asn @ '' from cache'')), s')
            | None \<Rightarrow>
                cached_loop S ipv4 ipv6 rest
                  (AList.update asn
                     \<lparr>nets_ipv4 = (if ipv4 then IPv4 r else []),
                      nets_ipv6 = (if ipv6 then IPv6 r else [])\<rparr> result)
                  uncached s'))"

text \<open>The second loop: every fetched entry is put on the cache and added to the result.\<close>

fun store_loop :: "'s Storage \<Rightarrow> bool \<Rightarrow> bool \<Rightarrow> resmap \<Rightarrow> resmap \<Rightarrow> 's \<Rightarrow> resmap result \<times> 's" where
  "store_loop S ipv4 ipv6 [] result s = (Return result, s)"
| "store_loop S ipv4 ipv6 ((asn, v) # rest) result s =
     (case Set S \<lparr>AS = asn, IPv4 = nets_ipv4 v, IPv6 = nets_ipv6 v,
                   FetchedIPv4 = ipv4, FetchedIPv6 = ipv6\<rparr> s of
        (Some err, s') \<Rightarrow> (Error (Wrap err (''failed to put '' @ asn @ '' on cache'')), s')
      | (None, s') \<Rightarrow>
          store_loop S ipv4 ipv6 rest
            (AList.update asn \<lparr>nets_ipv4 = nets_ipv4 v, nets_ipv6 = nets_ipv6 v\<rparr> result) s')"

definition cachedFetcher_Fetch :: "fetcher \<Rightarrow> 's Storage \<Rightarrow> parser \<Rightarrow> bool \<Rightarrow> bool \<Rightarrow> string list
    \<Rightarrow> 's \<times> world \<Rightarrow> resmap result \<times> 's \<times> world" where
  "cachedFetcher_Fetch f S P ipv4 ipv6 asn sw =
     (case sw of (s, w) \<Rightarrow>
        if length asn = 0 then (Return [], s, w)
        else case cached_loop S ipv4 ipv6 asn [] [] s of
            (Inl err, s') \<Rightarrow> (Error err, s', w)
          | (Inr (result, uncached), s') \<Rightarrow>
              if length uncached = 0 then (Return result, s', w)
              else (case Fetch f P ipv4 ipv6 uncached w of
                  (Error err, w') \<Rightarrow> (Error err, s', w')
                | (Panic err, w') \<Rightarrow> (Panic err, s', w')
                | (Return r, w') \<Rightarrow>
                    (case store_loop S ipv4 ipv6 r result s' of
                       (res, s'') \<Rightarrow> (res, s'', w'))))"

section \<open>Sample collaborators\<close>

text \<open>
  \<open>net.ParseCIDR\<close> on the two prefixes the examples use: it returns a four-byte
  network for \<open>1.2.3.0/24\<close> and a sixteen-byte one for \<open>2001:db8::/32\<close>. The
  examples give it no other token than these two, the empty token and
  \<open>not-a-cidr\<close>, which \<open>net.ParseCIDR\<close> refuses as well.
\<close>

definition ParseCIDR_sample :: parser where
  "ParseCIDR_sample s =
     (if s = ''1.2.3.0/24'' then Some \<lparr>IP = [1, 2, 3, 0], Mask = [255, 255, 255, 0]\<rparr>
      else if s = ''2001:db8::/32''
        then Some \<lparr>IP = [0x20, 0x01, 0x0d, 0xb8, 0, 0, 0, 0, 0, 0, 0, 0, 0, 0, 0, 0],
                   Mask = [255, 255, 255, 255, 0, 0, 0, 0, 0, 0, 0, 0, 0, 0, 0, 0]\<rparr>
      else None)"

text \<open>
  A backend of the interface \<open>Storage\<close> whose \<open>Get\<close> fails with an error of its
  own and the zero record, as a backend on a disk or a network may.
\<close>

definition failing_Storage :: "unit Storage" where
  "failing_Storage =
     \<lparr>Get = (\<lambda>asn s. ((ASStorage_zero, Some (IOError ''backend'')), s)),
      Set = (\<lambda>r s. (None, s))\<rparr>"

section \<open>The commands of a batch\<close>

text \<open>
  The queries of a batch in the order of the protocol: for each AS number the IPv4
  query if IPv4 is requested, then the IPv6 query if IPv6 is requested.
\<close>

definition queries :: "bool \<Rightarrow> bool \<Rightarrow> string list \<Rightarrow> string list" where
  "queries ipv4 ipv6 asn =
     concat (map (\<lambda>v. (if ipv4 then [''!gAS'' @ v @ ''\<newline>''] else []) @
                       (if ipv6 then [''!6AS'' @ v @ ''\<newline>''] else [])) asn)"

section \<open>The empty batch\<close>

text \<open>
  Claim C7. Whatever the flags \<open>ipv4\<close> and \<open>ipv6\<close> are, \<open>Fetch\<close> on no AS number
  returns the empty mapping and no error, on the plain fetcher and on the cached one.
  The network is left as it was: no connection is dialed. On the cached fetcher the
  state of the backend is left as it was too, for every backend \<open>S\<close>: neither
  \<open>Get\<close> nor \<open>Set\<close> is called.
\<close>

theorem Fetch_empty:
  "Fetch f P ipv4 ipv6 [] w = (Return [], w) \<and>
   cachedFetcher_Fetch f S P ipv4 ipv6 [] (s, w) = (Return [], s, w)"
  by (simp add: Fetch_def cachedFetcher_Fetch_def)

section \<open>The registry of backends\<close>

text \<open>
  Claim C8. \<open>NewStorage\<close> with a name that the registry \<open>storages\<close> does not hold
  fails with \<open>ErrStorageNotFound\<close> and builds nothing; with a name the registry holds
  it succeeds, and returns the empty in-memory store with the TTL of the options.
\<close>

theorem NewStorage_registry:
  "(Name opts \<notin> dom storages \<longrightarrow> NewStorage opts = Inl ErrStorageNotFound) \<and>
   (Name opts \<in> dom storages \<longrightarrow>
      NewStorage opts = Inr \<lparr>stor = Map.empty, ttl = Map.empty, maxTTL = TTL opts\<rparr>)"
  by (auto simp: NewStorage_def storages_def newMemory_def split: option.splits if_splits)

theorem NewStorage_registry_witness:
  "''redis'' \<notin> dom storages \<and>
   NewStorage \<lparr>Name = ''redis'', TTL = 60\<rparr> = Inl ErrStorageNotFound \<and>
   ''memory'' \<in> dom storages \<and>
   NewStorage \<lparr>Name = ''memory'', TTL = 60\<rparr> =
     Inr \<lparr>stor = Map.empty, ttl = Map.empty, maxTTL = 60\<rparr>"
  using NewStorage_registry [of "\<lparr>Name = ''redis'', TTL = 60\<rparr>"]
    NewStorage_registry [of "\<lparr>Name = ''memory'', TTL = 60\<rparr>"]
  by (simp add: storages_def)

text \<open>
  Claim C10. The registry holds the three names \<open>""\<close>, \<open>"default"\<close> and
  \<open>"memory"\<close> and no other, each with the constructor \<open>newMemory\<close>; so
  \<open>NewStorage\<close> with the empty name succeeds and returns the in-memory backend.
\<close>

theorem storages_names:
  "storages '''' = Some newMemory \<and>
   storages ''default'' = Some newMemory \<and>
   storages ''memory'' = Some newMemory \<and>
   dom storages = {'''', ''default'', ''memory''} \<and>
   NewStorage \<lparr>Name = '''', TTL = t\<rparr> = Inr \<lparr>stor = Map.empty, ttl = Map.empty, maxTTL = t\<rparr>"
  by (auto simp: storages_def NewStorage_def newMemory_def split: if_splits)

section \<open>Expiry in the in-memory store\<close>

text \<open>
  Claim C6. Let the record \<open>r\<close> be put on a store \<open>m\<close> at time \<open>T\<close>, and let
  \<open>now\<close> be later than \<open>T\<close> plus the store's TTL. Then \<open>Get\<close> for the key of
  \<open>r\<close> at \<open>now\<close> fails with \<open>ErrASNotCached\<close> and returns the zero record, as it
  does for a key the store does not hold; the store it leaves holds neither the record
  nor its time stamp; and a second \<open>Get\<close> at the same \<open>now\<close> fails with
  \<open>ErrASNotCached\<close> again and changes nothing.
\<close>

theorem memory_Get_expired:
  assumes "T + maxTTL m < now"
  shows "let m1 = snd (memory_Set m T r);
             g1 = memory_Get m1 now (AS r);
             m2 = snd g1;
             g2 = memory_Get m2 now (AS r)
         in fst g1 = (ASStorage_zero, Some ErrASNotCached) \<and>
            stor m2 (AS r) = None \<and> ttl m2 (AS r) = None \<and>
            fst g2 = (ASStorage_zero, Some ErrASNotCached) \<and> snd g2 = m2"
  using assms by (simp add: memory_Set_def memory_Get_def Let_def)

theorem memory_Get_expired_witness:
  "let m = \<lparr>stor = Map.empty, ttl = Map.empty, maxTTL = 60\<rparr>;
       r = \<lparr>AS = ''1234'', IPv4 = [], IPv6 = [], FetchedIPv4 = True, FetchedIPv6 = False\<rparr>;
       m1 = snd (memory_Set m 100 r);
       g1 = memory_Get m1 161 ''1234'';
       g2 = memory_Get (snd g1) 161 ''1234''
   in (100::int) + maxTTL m < 161 \<and>
      fst (memory_Get m1 160 ''1234'') = (r, None) \<and>
      fst g1 = (ASStorage_zero, Some ErrASNotCached) \<and>
      stor (snd g1) ''1234'' = None \<and>
      fst g2 = (ASStorage_zero, Some ErrASNotCached)"
  using memory_Get_expired [of 100 "\<lparr>stor = Map.empty, ttl = Map.empty, maxTTL = 60\<rparr>" 161
      "\<lparr>AS = ''1234'', IPv4 = [], IPv6 = [], FetchedIPv4 = True, FetchedIPv6 = False\<rparr>"]
  by (simp add: Let_def memory_Set_def memory_Get_def)

section \<open>A read that fails\<close>

text \<open>
  Claim C5. The server answers the IPv4 query for AS 1234 with a header and one data
  line and then closes the connection. \<open>readLine\<close> returns its error, and \<open>fetch\<close>
  panics with it: \<open>Fetch\<close> does not return an error to its caller, it unwinds with a
  panic (the deferred function still writes the exit command and closes the
  connection).
\<close>

theorem fetch_read_failure_panics:
  "Fetch \<lparr>host = ''whois.radb.net'', port = 43\<rparr> ParseCIDR_sample True False [''1234'']
     \<lparr>dials = [Some (''A1\<newline>1.2.3.0/24\<newline>'', [])], conns = []\<rparr> =
   (Panic (Wrap (IOError ''EOF'') ''failed to read next byte from connection''),
    \<lparr>dials = [],
       conns = [\<lparr>rx = [], wr = [], tx = [''!!\<newline>'', ''!gAS1234\<newline>'', ''exit\<newline>''],
                 closed = True\<rparr>]\<rparr>)"
  by code_simp

section \<open>A cache that fails\<close>

text \<open>
  Claim C4. With a backend whose \<open>Get\<close> fails with an error other than
  \<open>ErrASNotCached\<close> and returns the zero record, \<open>Fetch\<close> for IPv4 takes AS 1234
  for uncached, fetches it from the server and returns the blocks: the error of the
  backend is lost. With neither version requested the same error ends the call.
\<close>

theorem cachedFetcher_Get_failure_swallowed:
  "cachedFetcher_Fetch \<lparr>host = ''whois.radb.net'', port = 43\<rparr> failing_Storage ParseCIDR_sample
     True False [''1234'']
     ((), \<lparr>dials = [Some (''A1\<newline>1.2.3.0/24\<newline>C\<newline>'', [])], conns = []\<rparr>) =
   (Return [(''1234'', \<lparr>nets_ipv4 = [\<lparr>IP = [1, 2, 3, 0], Mask = [255, 255, 255, 0]\<rparr>],
                         nets_ipv6 = []\<rparr>)],
    (),
    \<lparr>dials = [],
       conns = [\<lparr>rx = [], wr = [], tx = [''!!\<newline>'', ''!gAS1234\<newline>'', ''exit\<newline>''],
                 closed = True\<rparr>]\<rparr>) \<and>
   cachedFetcher_Fetch \<lparr>host = ''whois.radb.net'', port = 43\<rparr> failing_Storage ParseCIDR_sample
     False False [''1234'']
     ((), \<lparr>dials = [Some (''A1\<newline>1.2.3.0/24\<newline>C\<newline>'', [])], conns = []\<rparr>) =
   (Error (Wrap (IOError ''backend'') ''failed to fetch asn 1234 from cache''),
    (),
    \<lparr>dials = [Some (''A1\<newline>1.2.3.0/24\<newline>C\<newline>'', [])], conns = []\<rparr>)"
  by code_simp

section \<open>The data lines of a response\<close>

lemma parse_nets_find:
  "parse_nets P asn toks resp =
     (case find (\<lambda>n. P n = None) toks of
        None \<Rightarrow> Inr (resp @ map (the \<circ> P) toks)
      | Some n \<Rightarrow> Inl (Errorf (''failed to parse network '' @ n @ '' for as '' @ asn)))"
  by (induction toks arbitrary: resp) (auto split: option.splits)

lemma find_None_all: "find Q xs = None \<longleftrightarrow> (\<forall>x\<in>set xs. \<not> Q x)"
  by (induction xs) auto

lemma readLine_rx:
  "rx c = rx d \<Longrightarrow> fst (readLine c) = fst (readLine d) \<and> rx (snd (readLine c)) = rx (snd (readLine d))"
  by (simp add: readLine_def split: prod.splits)

lemma fetch_loop_rx:
  "rx c = rx d \<Longrightarrow> fst (fetch_loop P asn st r c) = fst (fetch_loop P asn st r d)"
proof (induction P asn st r c arbitrary: d rule: fetch_loop.induct)
  case (1 P asn state response c)
  obtain l c1 where c1: "readLine c = (l, c1)" by (cases "readLine c")
  obtain l' d1 where d1': "readLine d = (l', d1)" by (cases "readLine d")
  from readLine_rx [OF "1.prems"] c1 d1' have "l' = l" and rx1: "rx c1 = rx d1" by simp_all
  with d1' have d1: "readLine d = (l, d1)" by simp
  show ?case
  proof (cases l)
    case (Inl e)
    with c1 d1 show ?thesis
      by (simp add: fetch_loop.simps [of _ _ _ _ c] fetch_loop.simps [of _ _ _ _ d])
  next
    case (Inr line)
    note c1' = c1 [unfolded Inr, symmetric]
    show ?thesis
    proof (cases state)
      case Start
      have "fst (fetch_loop P asn Response response c1) = fst (fetch_loop P asn Response response d1)"
        if "line \<noteq> ''D''" "line \<noteq> ''C''" "\<not> length line \<le> 0" "\<not> hd line \<noteq> CHR ''A''"
        using "1.IH"(1) [OF c1' refl that(1,2) Start that(3,4) rx1] .
      with Inr Start c1 d1 show ?thesis
        by (simp add: fetch_loop.simps [of _ _ _ _ c] fetch_loop.simps [of _ _ _ _ d])
    next
      case Response
      have "fst (fetch_loop P asn Response r' c1) = fst (fetch_loop P asn Response r' d1)"
        if "line \<noteq> ''D''" "line \<noteq> ''C''" "parse_nets P asn (Split_sp line) response = Inr r'" for r'
        using "1.IH"(2) [OF c1' refl that(1,2) Response that(3) rx1] .
      with Inr Response c1 d1 show ?thesis
        by (simp add: fetch_loop.simps [of _ _ _ _ c] fetch_loop.simps [of _ _ _ _ d] split: sum.splits)
    qed
  qed
qed

text \<open>
  Claim C3, as the specification states it, at an IPv4 query whose data line holds an
  IPv6 prefix: the query does not fail. \<open>fetch\<close> returns the sixteen-byte network,
  which is not an IPv4 one.
\<close>

theorem fetch_accepts_other_family:
  "fst (fetch ParseCIDR_sample
          \<lparr>rx = ''A1\<newline>2001:db8::/32\<newline>C\<newline>'', wr = [], tx = [], closed = False\<rparr> ''1234'' 4) =
     Return [\<lparr>IP = [0x20, 0x01, 0x0d, 0xb8, 0, 0, 0, 0, 0, 0, 0, 0, 0, 0, 0, 0],
              Mask = [255, 255, 255, 255, 0, 0, 0, 0, 0, 0, 0, 0, 0, 0, 0, 0]\<rparr>] \<and>
   \<not> isIPv4 \<lparr>IP = [0x20, 0x01, 0x0d, 0xb8, 0, 0, 0, 0, 0, 0, 0, 0, 0, 0, 0, 0],
              Mask = [255, 255, 255, 255, 0, 0, 0, 0, 0, 0, 0, 0, 0, 0, 0, 0]\<rparr>"
  by code_simp

text \<open>
  Claim C3, amended. In the collecting state a data line (a line other than the two
  markers) is split on single spaces, and every token goes to \<open>net.ParseCIDR\<close>, which
  is not told the family of the query. When it accepts every token, the networks are
  appended to the response in the order of the line and the loop goes on; when it
  refuses one, the query fails with an error whose message names the first token
  refused and the AS number. The family requested has no part in it: on the same
  connection the IPv4 query and the IPv6 query have the same outcome.
\<close>

theorem fetch_loop_collecting:
  assumes "readLine c = (Inr line, c')" and "line \<noteq> ''D''" and "line \<noteq> ''C''"
  shows "((\<forall>n\<in>set (Split_sp line). P n \<noteq> None) \<longrightarrow>
            fetch_loop P asn Response response c =
            fetch_loop P asn Response (response @ map (the \<circ> P) (Split_sp line)) c') \<and>
         (\<forall>n. find (\<lambda>n. P n = None) (Split_sp line) = Some n \<longrightarrow>
            fetch_loop P asn Response response c =
            (Error (Errorf (''failed to parse network '' @ n @ '' for as '' @ asn)), c')) \<and>
         fst (fetch P d asn 4) = fst (fetch P d asn 6)"
proof (intro conjI impI allI)
  assume "\<forall>n\<in>set (Split_sp line). P n \<noteq> None"
  then have "find (\<lambda>n. P n = None) (Split_sp line) = None"
    by (simp add: find_None_all)
  with assms show "fetch_loop P asn Response response c =
      fetch_loop P asn Response (response @ map (the \<circ> P) (Split_sp line)) c'"
    by (simp add: fetch_loop.simps [of _ _ _ _ c] parse_nets_find)
next
  fix n assume "find (\<lambda>n. P n = None) (Split_sp line) = Some n"
  with assms show "fetch_loop P asn Response response c =
      (Error (Errorf (''failed to parse network '' @ n @ '' for as '' @ asn)), c')"
    by (simp add: fetch_loop.simps [of _ _ _ _ c] parse_nets_find)
next
  show "fst (fetch P d asn 4) = fst (fetch P d asn 6)"
    by (auto simp: fetch_def fetch_cmd_def conn_Write_def split: list.splits intro: fetch_loop_rx)
qed

theorem fetch_loop_collecting_witness:
  "readLine \<lparr>rx = ''1.2.3.0/24 not-a-cidr\<newline>C\<newline>'', wr = [], tx = [''!gAS1234\<newline>''], closed = False\<rparr> =
     (Inr ''1.2.3.0/24 not-a-cidr'',
      \<lparr>rx = ''C\<newline>'', wr = [], tx = [''!gAS1234\<newline>''], closed = False\<rparr>) \<and>
   find (\<lambda>n. ParseCIDR_sample n = None) (Split_sp ''1.2.3.0/24 not-a-cidr'') = Some ''not-a-cidr'' \<and>
   fetch_loop ParseCIDR_sample ''1234'' Response []
     \<lparr>rx = ''1.2.3.0/24 not-a-cidr\<newline>C\<newline>'', wr = [], tx = [''!gAS1234\<newline>''], closed = False\<rparr> =
     (Error (Errorf ''failed to parse network not-a-cidr for as 1234''),
      \<lparr>rx = ''C\<newline>'', wr = [], tx = [''!gAS1234\<newline>''], closed = False\<rparr>) \<and>
   readLine \<lparr>rx = ''1.2.3.0/24 2001:db8::/32\<newline>C\<newline>'', wr = [], tx = [''!gAS1234\<newline>''], closed = False\<rparr> =
     (Inr ''1.2.3.0/24 2001:db8::/32'',
      \<lparr>rx = ''C\<newline>'', wr = [], tx = [''!gAS1234\<newline>''], closed = False\<rparr>) \<and>
   list_all (\<lambda>n. ParseCIDR_sample n \<noteq> None) (Split_sp ''1.2.3.0/24 2001:db8::/32'') \<and>
   fetch_loop ParseCIDR_sample ''1234'' Response []
     \<lparr>rx = ''1.2.3.0/24 2001:db8::/32\<newline>C\<newline>'', wr = [], tx = [''!gAS1234\<newline>''], closed = False\<rparr> =
   fetch_loop ParseCIDR_sample ''1234'' Response
     [\<lparr>IP = [1, 2, 3, 0], Mask = [255, 255, 255, 0]\<rparr>,
      \<lparr>IP = [0x20, 0x01, 0x0d, 0xb8, 0, 0, 0, 0, 0, 0, 0, 0, 0, 0, 0, 0],
              Mask = [255, 255, 255, 255, 0, 0, 0, 0, 0, 0, 0, 0, 0, 0, 0, 0]\<rparr>]
     \<lparr>rx = ''C\<newline>'', wr = [], tx = [''!gAS1234\<newline>''], closed = False\<rparr>"
proof -
  let ?c = "\<lparr>rx = ''1.2.3.0/24 not-a-cidr\<newline>C\<newline>'', wr = [], tx = [''!gAS1234\<newline>''], closed = False\<rparr>"
  let ?d = "\<lparr>rx = ''1.2.3.0/24 2001:db8::/32\<newline>C\<newline>'', wr = [], tx = [''!gAS1234\<newline>''], closed = False\<rparr>"
  let ?e = "\<lparr>rx = ''C\<newline>'', wr = [], tx = [''!gAS1234\<newline>''], closed = False\<rparr>"
  have c: "readLine ?c = (Inr ''1.2.3.0/24 not-a-cidr'', ?e)" by code_simp
  have d: "readLine ?d = (Inr ''1.2.3.0/24 2001:db8::/32'', ?e)" by code_simp
  have bad: "find (\<lambda>n. ParseCIDR_sample n = None) (Split_sp ''1.2.3.0/24 not-a-cidr'') = Some ''not-a-cidr''"
    by code_simp
  have good: "list_all (\<lambda>n. ParseCIDR_sample n \<noteq> None) (Split_sp ''1.2.3.0/24 2001:db8::/32'')"
    by code_simp
  have toks: "map (the \<circ> ParseCIDR_sample) (Split_sp ''1.2.3.0/24 2001:db8::/32'') =
     [\<lparr>IP = [1, 2, 3, 0], Mask = [255, 255, 255, 0]\<rparr>,
      \<lparr>IP = [0x20, 0x01, 0x0d, 0xb8, 0, 0, 0, 0, 0, 0, 0, 0, 0, 0, 0, 0],
              Mask = [255, 255, 255, 255, 0, 0, 0, 0, 0, 0, 0, 0, 0, 0, 0, 0]\<rparr>]"
    by code_simp
  from good have good': "\<forall>n\<in>set (Split_sp ''1.2.3.0/24 2001:db8::/32''). ParseCIDR_sample n \<noteq> None"
    by (simp only: list_all_iff)
  from fetch_loop_collecting [OF c, of ParseCIDR_sample "''1234''" "[]"] bad
  have 1: "fetch_loop ParseCIDR_sample ''1234'' Response [] ?c =
     (Error (Errorf ''failed to parse network not-a-cidr for as 1234''), ?e)"
    by simp
  from fetch_loop_collecting [OF d, of ParseCIDR_sample "''1234''" "[]"] good' toks
  have 2: "fetch_loop ParseCIDR_sample ''1234'' Response [] ?d =
     fetch_loop ParseCIDR_sample ''1234'' Response
     [\<lparr>IP = [1, 2, 3, 0], Mask = [255, 255, 255, 0]\<rparr>,
      \<lparr>IP = [0x20, 0x01, 0x0d, 0xb8, 0, 0, 0, 0, 0, 0, 0, 0, 0, 0, 0, 0],
              Mask = [255, 255, 255, 255, 0, 0, 0, 0, 0, 0, 0, 0, 0, 0, 0, 0]\<rparr>] ?e"
    by simp
  from c d bad good 1 2 show ?thesis by (intro conjI)
qed

section \<open>A query that fails inside a batch\<close>

lemma Fetch_loop_append:
  "Fetch_loop P ipv4 ipv6 (xs @ ys) r c =
     (case Fetch_loop P ipv4 ipv6 xs r c of
        (Return r', c') \<Rightarrow> Fetch_loop P ipv4 ipv6 ys r' c'
      | (Error e, c') \<Rightarrow> (Error e, c')
      | (Panic e, c') \<Rightarrow> (Panic e, c'))"
  by (induction xs arbitrary: r c) (auto split: prod.splits result.splits)

text \<open>
  Claim C2. \<open>Fetch\<close> has opened the connection \<open>c\<close> and enabled the multicommand
  mode; the AS numbers \<open>pre\<close> have been fetched, with the entries \<open>r1\<close> as their
  result. If the query for the next AS number \<open>v\<close> then fails with the error \<open>e\<close>,
  the IPv4 one or the IPv6 one, \<open>Fetch\<close> returns this very error and no mapping:
  the entries \<open>r1\<close> are not returned. No query is made for the AS numbers \<open>post\<close>:
  the connection is left as the failed query left it, but for the deferred function.
\<close>

theorem Fetch_aborts_batch:
  assumes "net_Dial w = (Some c, w1)"
    and "conn_Write c ''!!\<newline>'' = (None, c0)"
    and "Fetch_loop P ipv4 ipv6 pre [] c0 = (Return r1, c1)"
    and "(ipv4 \<and> fetch P c1 v 4 = (Error e, c2)) \<or>
         (ipv6 \<and> (if ipv4 then \<exists>n4. fetch P c1 v 4 = (Return n4, c1') else c1' = c1) \<and>
          fetch P c1' v 6 = (Error e, c2))"
  shows "Fetch f P ipv4 ipv6 (pre @ v # post) w =
         (Error e, w1\<lparr>conns := conns w1 @ [Fetch_deferred c2]\<rparr>)"
proof -
  from assms(4) have "Fetch_one P ipv4 ipv6 v r1 c1 = (Error e, c2)"
    by (auto simp: Fetch_one_def Let_def split: if_splits)
  with assms(3) have "Fetch_loop P ipv4 ipv6 (pre @ v # post) [] c0 = (Error e, c2)"
    by (simp add: Fetch_loop_append)
  with assms(1,2) show ?thesis
    by (simp add: Fetch_def Fetch_conn_def)
qed

theorem Fetch_aborts_batch_witness:
  "net_Dial \<lparr>dials = [Some (''A1\<newline>1.2.3.0/24\<newline>C\<newline>D\<newline>'', [])], conns = []\<rparr> =
     (Some \<lparr>rx = ''A1\<newline>1.2.3.0/24\<newline>C\<newline>D\<newline>'', wr = [], tx = [], closed = False\<rparr>,
      \<lparr>dials = [], conns = []\<rparr>) \<and>
   Fetch_loop ParseCIDR_sample True False [''1234''] []
     \<lparr>rx = ''A1\<newline>1.2.3.0/24\<newline>C\<newline>D\<newline>'', wr = [], tx = [''!!\<newline>''], closed = False\<rparr> =
     (Return [(''1234'', \<lparr>nets_ipv4 = [\<lparr>IP = [1, 2, 3, 0], Mask = [255, 255, 255, 0]\<rparr>],
                           nets_ipv6 = []\<rparr>)],
      \<lparr>rx = ''D\<newline>'', wr = [], tx = [''!!\<newline>'', ''!gAS1234\<newline>''], closed = False\<rparr>) \<and>
   fetch ParseCIDR_sample
     \<lparr>rx = ''D\<newline>'', wr = [], tx = [''!!\<newline>'', ''!gAS1234\<newline>''], closed = False\<rparr> ''9999'' 4 =
     (Error (Errorf ''as 9999 not found''),
      \<lparr>rx = [], wr = [], tx = [''!!\<newline>'', ''!gAS1234\<newline>'', ''!gAS9999\<newline>''], closed = False\<rparr>) \<and>
   Fetch \<lparr>host = ''whois.radb.net'', port = 43\<rparr> ParseCIDR_sample True False
     [''1234'', ''9999'', ''5678'']
     \<lparr>dials = [Some (''A1\<newline>1.2.3.0/24\<newline>C\<newline>D\<newline>'', [])], conns = []\<rparr> =
     (Error (Errorf ''as 9999 not found''),
      \<lparr>dials = [],
         conns = [\<lparr>rx = [], wr = [],
                   tx = [''!!\<newline>'', ''!gAS1234\<newline>'', ''!gAS9999\<newline>'', ''exit\<newline>''],
                   closed = True\<rparr>]\<rparr>)"
proof -
  let ?w = "\<lparr>dials = [Some (''A1\<newline>1.2.3.0/24\<newline>C\<newline>D\<newline>'', [])], conns = []\<rparr>"
  let ?c = "\<lparr>rx = ''A1\<newline>1.2.3.0/24\<newline>C\<newline>D\<newline>'', wr = [], tx = [], closed = False\<rparr>"
  let ?cb = "\<lparr>rx = ''A1\<newline>1.2.3.0/24\<newline>C\<newline>D\<newline>'', wr = [], tx = [''!!\<newline>''], closed = False\<rparr>"
  let ?cc = "\<lparr>rx = ''D\<newline>'', wr = [], tx = [''!!\<newline>'', ''!gAS1234\<newline>''], closed = False\<rparr>"
  let ?cd = "\<lparr>rx = [], wr = [], tx = [''!!\<newline>'', ''!gAS1234\<newline>'', ''!gAS9999\<newline>''], closed = False\<rparr>"
  let ?ra = "[(''1234'', \<lparr>nets_ipv4 = [\<lparr>IP = [1, 2, 3, 0], Mask = [255, 255, 255, 0]\<rparr>],
                           nets_ipv6 = []\<rparr>)]"
  have h1: "net_Dial ?w = (Some ?c, \<lparr>dials = [], conns = []\<rparr>)" by code_simp
  have h2: "conn_Write ?c ''!!\<newline>'' = (None, ?cb)" by code_simp
  have h3: "Fetch_loop ParseCIDR_sample True False [''1234''] [] ?cb = (Return ?ra, ?cc)" by code_simp
  have h4: "fetch ParseCIDR_sample ?cc ''9999'' 4 = (Error (Errorf ''as 9999 not found''), ?cd)"
    by code_simp
  have d: "Fetch_deferred ?cd = \<lparr>rx = [], wr = [],
                   tx = [''!!\<newline>'', ''!gAS1234\<newline>'', ''!gAS9999\<newline>'', ''exit\<newline>''],
                   closed = True\<rparr>" by code_simp
  from h4 have h4': "(True \<and> fetch ParseCIDR_sample ?cc ''9999'' 4 = (Error (Errorf ''as 9999 not found''), ?cd)) \<or>
         (False \<and> (if True then \<exists>n4. fetch ParseCIDR_sample ?cc ''9999'' 4 = (Return n4, ?cc) else ?cc = ?cc) \<and>
          fetch ParseCIDR_sample ?cc ''9999'' 6 = (Error (Errorf ''as 9999 not found''), ?cd))"
    by simp
  from Fetch_aborts_batch [OF h1 h2 h3 h4', of "\<lparr>host = ''whois.radb.net'', port = 43\<rparr>" "[''5678'']"] d
  have "Fetch \<lparr>host = ''whois.radb.net'', port = 43\<rparr> ParseCIDR_sample True False
     [''1234'', ''9999'', ''5678''] ?w =
     (Error (Errorf ''as 9999 not found''),
      \<lparr>dials = [],
         conns = [\<lparr>rx = [], wr = [],
                   tx = [''!!\<newline>'', ''!gAS1234\<newline>'', ''!gAS9999\<newline>'', ''exit\<newline>''],
                   closed = True\<rparr>]\<rparr>)"
    by simp
  with h1 h3 h4 show ?thesis by (intro conjI)
qed

section \<open>The commands on the wire\<close>

lemma queries_Cons: "queries ipv4 ipv6 (v # vs) = queries ipv4 ipv6 [v] @ queries ipv4 ipv6 vs"
  by (simp add: queries_def)

lemma queries_Nil: "queries ipv4 ipv6 [] = []"
  by (simp add: queries_def)

lemma enable_not_query: "''!!\<newline>'' \<notin> set (queries ipv4 ipv6 asn)"
  by (auto simp: queries_def)

lemma readLine_frame: "snd (readLine c) = c\<lparr>rx := rx (snd (readLine c))\<rparr>"
  by (simp add: readLine_def split: prod.splits)

lemma fetch_loop_frame:
  "snd (fetch_loop P asn st r c) = c\<lparr>rx := rx (snd (fetch_loop P asn st r c))\<rparr>"
proof (induction P asn st r c rule: fetch_loop.induct)
  case (1 P asn state response c)
  obtain l c1 where c1: "readLine c = (l, c1)" by (cases "readLine c")
  with readLine_frame [of c] have fr: "c1 = c\<lparr>rx := rx c1\<rparr>" by simp
  have upd: "c\<lparr>rx := rx x\<rparr> = x" if "x = c1\<lparr>rx := rx x\<rparr>" for x
    using that fr by (metis conn.update_convs(1) conn.surjective)
  show ?case
  proof (cases l)
    case (Inl e)
    with c1 fr show ?thesis by (simp add: fetch_loop.simps [of _ _ _ _ c])
  next
    case (Inr line)
    note c1' = c1 [unfolded Inr, symmetric]
    show ?thesis
    proof (cases state)
      case Start
      have "c\<lparr>rx := rx (snd (fetch_loop P asn Response response c1))\<rparr> = snd (fetch_loop P asn Response response c1)"
        if "line \<noteq> ''D''" "line \<noteq> ''C''" "\<not> length line \<le> 0" "\<not> hd line \<noteq> CHR ''A''"
        using upd [OF "1.IH"(1) [OF c1' refl that(1,2) Start that(3,4)]] .
      with Inr Start c1 fr show ?thesis
        by (simp add: fetch_loop.simps [of _ _ _ _ c])
    next
      case Response
      have "c\<lparr>rx := rx (snd (fetch_loop P asn Response r' c1))\<rparr> = snd (fetch_loop P asn Response r' c1)"
        if "line \<noteq> ''D''" "line \<noteq> ''C''" "parse_nets P asn (Split_sp line) response = Inr r'" for r'
        using upd [OF "1.IH"(2) [OF c1' refl that(1,2) Response that(3)]] .
      with Inr Response c1 fr show ?thesis
        by (simp add: fetch_loop.simps [of _ _ _ _ c] split: sum.splits)
    qed
  qed
qed

lemma fetch_loop_tx: "tx (snd (fetch_loop P asn st r c)) = tx c"
  by (subst fetch_loop_frame) simp

lemma fetch_cmd_tx:
  "tx (snd (fetch_cmd P c asn cmd)) = (if wr c = [] \<or> hd (wr c) then tx c @ [cmd] else tx c)"
  by (auto simp: fetch_cmd_def conn_Write_def fetch_loop_tx split: list.splits)

lemma fetch_cmd_fail:
  "\<not> (wr c = [] \<or> hd (wr c)) \<Longrightarrow> \<exists>e. fst (fetch_cmd P c asn cmd) = Error e"
  by (auto simp: fetch_cmd_def conn_Write_def split: list.splits)

lemma fetch_4_tx:
  "fetch P c v 4 = (res, c') \<Longrightarrow>
     tx c' = tx c @ [''!gAS'' @ v @ ''\<newline>''] \<or> (tx c' = tx c \<and> (\<exists>e. res = Error e))"
  using fetch_cmd_tx [of P c v "''!gAS'' @ v @ ''\<newline>''"]
    fetch_cmd_fail [of c P v "''!gAS'' @ v @ ''\<newline>''"]
  by (auto simp: fetch_def split: if_splits)

lemma fetch_6_tx:
  "fetch P c v 6 = (res, c') \<Longrightarrow>
     tx c' = tx c @ [''!6AS'' @ v @ ''\<newline>''] \<or> (tx c' = tx c \<and> (\<exists>e. res = Error e))"
  using fetch_cmd_tx [of P c v "''!6AS'' @ v @ ''\<newline>''"]
    fetch_cmd_fail [of c P v "''!6AS'' @ v @ ''\<newline>''"]
  by (auto simp: fetch_def split: if_splits)

lemma Fetch_one_tx:
  assumes "Fetch_one P ipv4 ipv6 v r c = (res, c')"
  shows "\<exists>qs. tx c' = tx c @ qs \<and> prefix qs (queries ipv4 ipv6 [v]) \<and>
              ((\<exists>m. res = Return m) \<longrightarrow> qs = queries ipv4 ipv6 [v])"
proof -
  obtain r4 c4 where f4: "fetch P c v 4 = (r4, c4)" by (cases "fetch P c v 4")
  obtain r6 c6 where f6: "fetch P c v 6 = (r6, c6)" by (cases "fetch P c v 6")
  obtain r46 c46 where f46: "fetch P c4 v 6 = (r46, c46)" by (cases "fetch P c4 v 6")
  note t4 = fetch_4_tx [OF f4] and t6 = fetch_6_tx [OF f6] and t46 = fetch_6_tx [OF f46]
  show ?thesis
  proof (cases ipv4)
    case True
    show ?thesis
    proof (cases r4)
      case (Return n4)
      with t4 have tx4: "tx c4 = tx c @ [''!gAS'' @ v @ ''\<newline>'']" by auto
      show ?thesis
      proof (cases ipv6)
        case True
        with \<open>ipv4\<close> Return assms f4 f46 t46 tx4 show ?thesis
          by (cases r46) (auto simp: Fetch_one_def queries_def)
      next
        case False
        with \<open>ipv4\<close> Return assms f4 tx4 show ?thesis
          by (auto simp: Fetch_one_def queries_def)
      qed
    next
      case (Error e)
      with True assms f4 t4 show ?thesis
        by (auto simp: Fetch_one_def queries_def)
    next
      case (Panic e)
      with True assms f4 t4 show ?thesis
        by (auto simp: Fetch_one_def queries_def)
    qed
  next
    case False
    show ?thesis
    proof (cases ipv6)
      case True
      with False assms f6 t6 show ?thesis
        by (cases r6) (auto simp: Fetch_one_def queries_def)
    next
      case ipv6: False
      with False assms show ?thesis
        by (auto simp: Fetch_one_def queries_def)
    qed
  qed
qed

lemma Fetch_loop_tx:
  "Fetch_loop P ipv4 ipv6 vs r c = (res, c') \<Longrightarrow>
     \<exists>qs. tx c' = tx c @ qs \<and> prefix qs (queries ipv4 ipv6 vs) \<and>
          ((\<exists>m. res = Return m) \<longrightarrow> qs = queries ipv4 ipv6 vs)"
proof (induction vs arbitrary: r c)
  case Nil
  then show ?case by (simp add: queries_Nil)
next
  case (Cons v vs)
  obtain r1 c1 where one: "Fetch_one P ipv4 ipv6 v r c = (r1, c1)"
    by (cases "Fetch_one P ipv4 ipv6 v r c")
  from Fetch_one_tx [OF one] obtain qs1 where
    q1: "tx c1 = tx c @ qs1" "prefix qs1 (queries ipv4 ipv6 [v])"
        "(\<exists>m. r1 = Return m) \<longrightarrow> qs1 = queries ipv4 ipv6 [v]" by blast
  show ?case
  proof (cases r1)
    case (Return m)
    with Cons.prems one have "Fetch_loop P ipv4 ipv6 vs m c1 = (res, c')" by simp
    from Cons.IH [OF this] obtain qs where
      q: "tx c' = tx c1 @ qs" "prefix qs (queries ipv4 ipv6 vs)"
         "(\<exists>m. res = Return m) \<longrightarrow> qs = queries ipv4 ipv6 vs" by blast
    from Return q1 have "qs1 = queries ipv4 ipv6 [v]" by simp
    with q q1 have "tx c' = tx c @ (queries ipv4 ipv6 [v] @ qs)"
      "prefix (queries ipv4 ipv6 [v] @ qs) (queries ipv4 ipv6 (v # vs))"
      "(\<exists>m. res = Return m) \<longrightarrow> queries ipv4 ipv6 [v] @ qs = queries ipv4 ipv6 (v # vs)"
      by (simp_all add: queries_Cons [of _ _ v vs])
    then show ?thesis by blast
  next
    case (Error e)
    with Cons.prems one have "res = Error e" "c' = c1" by simp_all
    with q1 have "tx c' = tx c @ qs1" "prefix qs1 (queries ipv4 ipv6 (v # vs))"
      "(\<exists>m. res = Return m) \<longrightarrow> qs1 = queries ipv4 ipv6 (v # vs)"
      by (simp_all add: queries_Cons [of _ _ v vs])
    then show ?thesis by blast
  next
    case (Panic e)
    with Cons.prems one have "res = Panic e" "c' = c1" by simp_all
    with q1 have "tx c' = tx c @ qs1" "prefix qs1 (queries ipv4 ipv6 (v # vs))"
      "(\<exists>m. res = Return m) \<longrightarrow> qs1 = queries ipv4 ipv6 (v # vs)"
      by (simp_all add: queries_Cons [of _ _ v vs])
    then show ?thesis by blast
  qed
qed

lemma Fetch_deferred_tx:
  "tx (Fetch_deferred c) = tx c \<or> tx (Fetch_deferred c) = tx c @ [''exit\<newline>'']"
  by (auto simp: Fetch_deferred_def conn_Close_def conn_Write_def split: list.splits)

lemma conn_Write_ok:
  "wr c = [] \<or> hd (wr c) \<Longrightarrow> \<exists>c'. conn_Write c s = (None, c') \<and> tx c' = tx c @ [s]"
  by (cases "wr c") (auto simp: conn_Write_def)

text \<open>
  Claim C9. A version other than 4 and 6 makes \<open>fetch\<close> return an error at once, the
  connection untouched. When the write succeeds, the IPv4 query writes exactly
  \<open>!gAS\<close>, the AS number and a newline, and the IPv6 query exactly \<open>!6AS\<close>, the AS
  number and a newline, and nothing else. On a connection that \<open>Fetch\<close> has dialed for
  a batch, and whose first write succeeds, the writes are the enable sequence \<open>!!\<close>
  with a newline, then queries of the batch in their order, then at most the exit
  command: the enable sequence comes first and is written once. When \<open>Fetch\<close> returns
  a result, all the queries of the batch were written.
\<close>

theorem fetch_commands:
  "(version \<noteq> 4 \<and> version \<noteq> 6 \<longrightarrow>
      fetch P c asn version =
        (Error (Errorf (''unknown ip protocol version '' @ fmt_d version)), c)) \<and>
   (wr c = [] \<or> hd (wr c) \<longrightarrow>
      tx (snd (fetch P c asn 4)) = tx c @ [''!gAS'' @ asn @ ''\<newline>''] \<and>
      tx (snd (fetch P c asn 6)) = tx c @ [''!6AS'' @ asn @ ''\<newline>'']) \<and>
   (batch \<noteq> [] \<and> dials w = Some (r, ws) # ds \<and> (ws = [] \<or> hd ws) \<longrightarrow>
      (\<exists>c' qs ex.
         conns (snd (Fetch f P ipv4 ipv6 batch w)) = conns w @ [c'] \<and>
         tx c' = ''!!\<newline>'' # qs @ ex \<and>
         prefix qs (queries ipv4 ipv6 batch) \<and>
         (ex = [] \<or> ex = [''exit\<newline>'']) \<and>
         ''!!\<newline>'' \<notin> set (qs @ ex) \<and>
         (\<forall>res. fst (Fetch f P ipv4 ipv6 batch w) = Return res \<longrightarrow>
            qs = queries ipv4 ipv6 batch)))"
proof (intro conjI impI)
  assume "version \<noteq> 4 \<and> version \<noteq> 6"
  then show "fetch P c asn version =
      (Error (Errorf (''unknown ip protocol version '' @ fmt_d version)), c)"
    by (simp add: fetch_def)
next
  assume "wr c = [] \<or> hd (wr c)"
  then show "tx (snd (fetch P c asn 4)) = tx c @ [''!gAS'' @ asn @ ''\<newline>'']"
    by (simp add: fetch_def fetch_cmd_tx)
next
  assume "wr c = [] \<or> hd (wr c)"
  then show "tx (snd (fetch P c asn 6)) = tx c @ [''!6AS'' @ asn @ ''\<newline>'']"
    by (simp add: fetch_def fetch_cmd_tx)
next
  assume a: "batch \<noteq> [] \<and> dials w = Some (r, ws) # ds \<and> (ws = [] \<or> hd ws)"
  let ?c = "\<lparr>rx = r, wr = ws, tx = [], closed = False\<rparr>"
  let ?w = "w\<lparr>dials := ds\<rparr>"
  from a have dial: "net_Dial w = (Some ?c, ?w)" by (simp add: net_Dial_def)
  from a conn_Write_ok [of ?c "''!!\<newline>''"]
  obtain ca where en: "conn_Write ?c ''!!\<newline>'' = (None, ca)" and txa: "tx ca = [''!!\<newline>'']"
    by auto
  obtain res cb where loop: "Fetch_loop P ipv4 ipv6 batch [] ca = (res, cb)"
    by (cases "Fetch_loop P ipv4 ipv6 batch [] ca")
  from Fetch_loop_tx [OF loop] txa obtain qs where
    q: "tx cb = ''!!\<newline>'' # qs" "prefix qs (queries ipv4 ipv6 batch)"
       "(\<exists>m. res = Return m) \<longrightarrow> qs = queries ipv4 ipv6 batch" by auto
  from a dial en loop have F: "Fetch f P ipv4 ipv6 batch w =
      (res, ?w\<lparr>conns := conns ?w @ [Fetch_deferred cb]\<rparr>)"
    by (simp add: Fetch_def Fetch_conn_def)
  from Fetch_deferred_tx [of cb] q(1) obtain ex where
    ex: "tx (Fetch_deferred cb) = ''!!\<newline>'' # qs @ ex" "ex = [] \<or> ex = [''exit\<newline>'']"
    by auto
  from q(2) enable_not_query [of ipv4 ipv6 batch] have "''!!\<newline>'' \<notin> set qs"
    by (auto simp: prefix_def)
  with ex(2) have no: "''!!\<newline>'' \<notin> set (qs @ ex)" by auto
  from F q(3) have ret: "\<forall>res'. fst (Fetch f P ipv4 ipv6 batch w) = Return res' \<longrightarrow>
      qs = queries ipv4 ipv6 batch" by simp
  from F have "conns (snd (Fetch f P ipv4 ipv6 batch w)) = conns w @ [Fetch_deferred cb]"
    by simp
  with ex q(2) no ret show "\<exists>c' qs ex.
         conns (snd (Fetch f P ipv4 ipv6 batch w)) = conns w @ [c'] \<and>
         tx c' = ''!!\<newline>'' # qs @ ex \<and>
         prefix qs (queries ipv4 ipv6 batch) \<and>
         (ex = [] \<or> ex = [''exit\<newline>'']) \<and>
         ''!!\<newline>'' \<notin> set (qs @ ex) \<and>
         (\<forall>res. fst (Fetch f P ipv4 ipv6 batch w) = Return res \<longrightarrow>
            qs = queries ipv4 ipv6 batch)"
    by blast
qed

theorem fetch_commands_witness:
  "fetch ParseCIDR_sample \<lparr>rx = ''A1\<newline>C\<newline>'', wr = [], tx = [], closed = False\<rparr> ''1234'' 5 =
     (Error (Errorf ''unknown ip protocol version 5''),
      \<lparr>rx = ''A1\<newline>C\<newline>'', wr = [], tx = [], closed = False\<rparr>) \<and>
   tx (snd (fetch ParseCIDR_sample \<lparr>rx = ''A1\<newline>C\<newline>'', wr = [], tx = [], closed = False\<rparr> ''1234'' 4)) =
     [''!gAS1234\<newline>''] \<and>
   tx (snd (fetch ParseCIDR_sample \<lparr>rx = ''A1\<newline>C\<newline>'', wr = [], tx = [], closed = False\<rparr> ''1234'' 6)) =
     [''!6AS1234\<newline>''] \<and>
   queries True True [''1234'', ''5678''] =
     [''!gAS1234\<newline>'', ''!6AS1234\<newline>'', ''!gAS5678\<newline>'', ''!6AS5678\<newline>''] \<and>
   (\<exists>c' ex. conns (snd (Fetch \<lparr>host = ''whois.radb.net'', port = 43\<rparr> ParseCIDR_sample True True
        [''1234'', ''5678'']
        \<lparr>dials = [Some (''A1\<newline>C\<newline>A1\<newline>C\<newline>A1\<newline>C\<newline>A1\<newline>C\<newline>'', [])], conns = []\<rparr>)) = [c'] \<and>
      tx c' = ''!!\<newline>'' # [''!gAS1234\<newline>'', ''!6AS1234\<newline>'', ''!gAS5678\<newline>'', ''!6AS5678\<newline>''] @ ex \<and>
      (ex = [] \<or> ex = [''exit\<newline>'']))"
proof -
  let ?c = "\<lparr>rx = ''A1\<newline>C\<newline>'', wr = [], tx = [], closed = False\<rparr>"
  let ?w = "\<lparr>dials = [Some (''A1\<newline>C\<newline>A1\<newline>C\<newline>A1\<newline>C\<newline>A1\<newline>C\<newline>'', [])], conns = []\<rparr>"
  let ?f = "\<lparr>host = ''whois.radb.net'', port = 43\<rparr>"
  have d: "fmt_d 5 = ''5''" by code_simp
  have q: "queries True True [''1234'', ''5678''] =
     [''!gAS1234\<newline>'', ''!6AS1234\<newline>'', ''!gAS5678\<newline>'', ''!6AS5678\<newline>'']"
    by (simp add: queries_def)
  have "fst (Fetch ?f ParseCIDR_sample True True [''1234'', ''5678''] ?w) =
      Return [(''1234'', \<lparr>nets_ipv4 = [], nets_ipv6 = []\<rparr>), (''5678'', \<lparr>nets_ipv4 = [], nets_ipv6 = []\<rparr>)]"
    by code_simp
  then have r: "\<exists>res. fst (Fetch ?f ParseCIDR_sample True True [''1234'', ''5678''] ?w) = Return res"
    by blast
  note th = fetch_commands [of 5 ParseCIDR_sample ?c "''1234''" "[''1234'', ''5678'']" ?w
      "''A1\<newline>C\<newline>A1\<newline>C\<newline>A1\<newline>C\<newline>A1\<newline>C\<newline>''" "[]" "[]" ?f True True]
  from th d have 1: "fetch ParseCIDR_sample ?c ''1234'' 5 =
     (Error (Errorf ''unknown ip protocol version 5''), ?c)" by simp
  from th have 2: "tx (snd (fetch ParseCIDR_sample ?c ''1234'' 4)) = [''!gAS1234\<newline>'']"
    and 3: "tx (snd (fetch ParseCIDR_sample ?c ''1234'' 6)) = [''!6AS1234\<newline>'']" by simp_all
  from th obtain c' qs ex where
    "conns (snd (Fetch ?f ParseCIDR_sample True True [''1234'', ''5678''] ?w)) = [c']"
    "tx c' = ''!!\<newline>'' # qs @ ex" "ex = [] \<or> ex = [''exit\<newline>'']"
    "\<forall>res. fst (Fetch ?f ParseCIDR_sample True True [''1234'', ''5678''] ?w) = Return res \<longrightarrow>
       qs = queries True True [''1234'', ''5678'']"
    by auto
  with r q have 4: "\<exists>c' ex. conns (snd (Fetch ?f ParseCIDR_sample True True [''1234'', ''5678''] ?w)) = [c'] \<and>
      tx c' = ''!!\<newline>'' # [''!gAS1234\<newline>'', ''!6AS1234\<newline>'', ''!gAS5678\<newline>'', ''!6AS5678\<newline>''] @ ex \<and>
      (ex = [] \<or> ex = [''exit\<newline>''])" by auto
  from 1 2 3 q 4 show ?thesis by (intro conjI)
qed

section \<open>Two calls of the cached fetcher\<close>

lemma Fetch_single:
  assumes "Fetch f P ipv4 ipv6 [X] w = (Return r, w')"
  shows "\<exists>e c. r = [(X, e)] \<and> (\<not> ipv4 \<longrightarrow> nets_ipv4 e = []) \<and> (\<not> ipv6 \<longrightarrow> nets_ipv6 e = []) \<and>
           conns w' = conns w @ [c]"
proof -
  from assms obtain c w1 where dial: "net_Dial w = (Some c, w1)"
    by (auto simp: Fetch_def split: prod.splits option.splits)
  then have cw: "conns w1 = conns w"
    by (auto simp: net_Dial_def split: list.splits option.splits)
  from assms dial obtain c' where
    conn: "Fetch_conn P ipv4 ipv6 [X] c = (Return r, c')" and w': "w' = w1\<lparr>conns := conns w1 @ [Fetch_deferred c']\<rparr>"
    by (auto simp: Fetch_def split: prod.splits)
  from conn obtain ca where one: "Fetch_one P ipv4 ipv6 X [] ca = (Return r, c')"
    by (auto simp: Fetch_conn_def split: prod.splits option.splits result.splits)
  then have "\<exists>e. r = [(X, e)] \<and> (\<not> ipv4 \<longrightarrow> nets_ipv4 e = []) \<and> (\<not> ipv6 \<longrightarrow> nets_ipv6 e = [])"
    by (auto simp: Fetch_one_def Let_def split: if_splits prod.splits result.splits)
  with w' cw show ?thesis by auto
qed

lemma memory_call_uncached:
  assumes call: "cachedFetcher_Fetch f (memory_Storage clk) P ipv4 ipv6 [X] ((m, k), w) =
        (Return res, (m', k'), w')"
    and unc: "cached_loop (memory_Storage clk) ipv4 ipv6 [X] [] [] (m, k) = (Inr ([], [X]), (ma, ka))"
  shows "\<exists>r e c. Fetch f P ipv4 ipv6 [X] w = (Return e, w') \<and> conns w' = conns w @ [c] \<and>
           stor m' X = Some r \<and> FetchedIPv4 r = ipv4 \<and> FetchedIPv6 r = ipv6 \<and>
           (\<not> ipv4 \<longrightarrow> IPv4 r = []) \<and> (\<not> ipv6 \<longrightarrow> IPv6 r = []) \<and>
           ttl m' X = Some (clk ka) \<and> maxTTL m' = maxTTL ma \<and> k' = Suc ka"
proof -
  from call unc obtain r where F: "Fetch f P ipv4 ipv6 [X] w = (Return r, w')"
    and st: "store_loop (memory_Storage clk) ipv4 ipv6 r [] (ma, ka) = (Return res, (m', k'))"
    by (auto simp: cachedFetcher_Fetch_def split: prod.splits result.splits)
  from Fetch_single [OF F] obtain e c where
    e: "r = [(X, e)]" "\<not> ipv4 \<longrightarrow> nets_ipv4 e = []" "\<not> ipv6 \<longrightarrow> nets_ipv6 e = []"
       "conns w' = conns w @ [c]" by blast
  let ?r = "\<lparr>AS = X, IPv4 = nets_ipv4 e, IPv6 = nets_ipv6 e,
                              FetchedIPv4 = ipv4, FetchedIPv6 = ipv6\<rparr>"
  from st e(1) have "stor m' X = Some ?r"
    "ttl m' X = Some (clk ka)" "maxTTL m' = maxTTL ma" "k' = Suc ka"
    by (auto simp: memory_Storage_def memory_Set_def)
  moreover from e have "\<not> ipv4 \<longrightarrow> IPv4 ?r = []" "\<not> ipv6 \<longrightarrow> IPv6 ?r = []" by simp_all
  moreover have "FetchedIPv4 ?r = ipv4" "FetchedIPv6 ?r = ipv6" by simp_all
  ultimately show ?thesis using F e(4) by blast
qed

lemma memory_Get_maxTTL: "maxTTL (snd (memory_Get m now X)) = maxTTL m"
  by (simp add: memory_Get_def split: option.splits)

lemma memory_cached_loop_single:
  "cached_loop (memory_Storage clk) ipv4 ipv6 [X] [] [] (m, k) = (out, (ma, ka)) \<Longrightarrow>
     ka = Suc k \<and> maxTTL ma = maxTTL m \<and>
     (out = Inr ([], [X]) \<or> (\<exists>e. out = Inr ([(X, e)], [])))"
  using memory_Get_maxTTL [of m "clk k" X]
  by (auto simp: memory_Storage_def memory_Get_def split: prod.splits option.splits if_splits)

text \<open>
  Claim C1. The cache is the in-memory store, with any clock. The first call, for IPv4
  only, fetches the AS number \<open>X\<close> from the network (it leaves the network changed)
  and returns; the second call, for IPv6 only, starts before the record of \<open>X\<close> has
  expired, and returns. Then the second call finds the record in the cache, with
  \<open>FetchedIPv4\<close> set and \<open>FetchedIPv6\<close> not; it takes \<open>X\<close> for uncached all the
  same and calls the plain fetcher for \<open>X\<close>, which opens a connection; and after it
  the record of \<open>X\<close> has \<open>FetchedIPv4\<close> false, \<open>FetchedIPv6\<close> true and no IPv4
  block.
\<close>

theorem refetch_overwrites_flags:
  assumes first: "cachedFetcher_Fetch f (memory_Storage clk) P True False [X] ((m0, k0), w0) =
        (Return res1, (m1, k1), w1)"
    and net1: "w1 \<noteq> w0"
    and fresh: "clk k1 - the (ttl m1 X) \<le> maxTTL m1"
    and second: "cachedFetcher_Fetch f (memory_Storage clk) P False True [X] ((m1, k1), w1) =
        (Return res2, (m2, k2), w2)"
  shows "(\<exists>r. fst (memory_Get m1 (clk k1) X) = (r, None) \<and> FetchedIPv4 r \<and> \<not> FetchedIPv6 r) \<and>
         cached_loop (memory_Storage clk) False True [X] [] [] (m1, k1) =
           (Inr ([], [X]), (m1, Suc k1)) \<and>
         (\<exists>r c. Fetch f P False True [X] w1 = (Return r, w2) \<and> conns w2 = conns w1 @ [c]) \<and>
         (\<exists>r. stor m2 X = Some r \<and> \<not> FetchedIPv4 r \<and> FetchedIPv6 r \<and> IPv4 r = [])"
proof -
  obtain out ma ka where scan: "cached_loop (memory_Storage clk) True False [X] [] [] (m0, k0) = (out, (ma, ka))"
    by (metis surj_pair)
  from memory_cached_loop_single [OF scan]
  have "out = Inr ([], [X]) \<or> (\<exists>e. out = Inr ([(X, e)], []))" by simp
  then have unc: "out = Inr ([], [X])"
  proof
    assume "\<exists>e. out = Inr ([(X, e)], [])"
    with first scan have "w1 = w0" by (auto simp: cachedFetcher_Fetch_def)
    with net1 show ?thesis by simp
  qed
  from memory_call_uncached [OF first scan [unfolded unc]] obtain r where
    rec: "stor m1 X = Some r" "FetchedIPv4 r" "\<not> FetchedIPv6 r"
    and stamp: "ttl m1 X = Some (clk ka)" by auto
  from rec stamp fresh have get: "memory_Get m1 (clk k1) X = ((r, None), m1)"
    by (simp add: memory_Get_def)
  with rec have scan2: "cached_loop (memory_Storage clk) False True [X] [] [] (m1, k1) =
           (Inr ([], [X]), (m1, Suc k1))"
    by (simp add: memory_Storage_def)
  from memory_call_uncached [OF second scan2] obtain r2 e2 c where
    F2: "Fetch f P False True [X] w1 = (Return e2, w2)" "conns w2 = conns w1 @ [c]"
    and rec2: "stor m2 X = Some r2" "\<not> FetchedIPv4 r2" "FetchedIPv6 r2" "IPv4 r2 = []"
    by auto
  from get rec scan2 F2 rec2 show ?thesis by auto
qed

theorem refetch_overwrites_flags_witness:
  "cachedFetcher_Fetch \<lparr>host = ''whois.radb.net'', port = 43\<rparr> (memory_Storage (\<lambda>k. 10 * int k)) ParseCIDR_sample True False [''1234''] ((\<lparr>stor = Map.empty, ttl = Map.empty, maxTTL = 60\<rparr>, 0), \<lparr>dials = [Some (''A1\<newline>1.2.3.0/24\<newline>C\<newline>'', []), Some (''A1\<newline>2001:db8::/32\<newline>C\<newline>'', [])], conns = []\<rparr>) = (Return [(''1234'', \<lparr>nets_ipv4 = [\<lparr>IP = [1, 2, 3, 0], Mask = [255, 255, 255, 0]\<rparr>], nets_ipv6 = []\<rparr>)], (\<lparr>stor = [''1234'' \<mapsto> \<lparr>AS = ''1234'', IPv4 = [\<lparr>IP = [1, 2, 3, 0], Mask = [255, 255, 255, 0]\<rparr>], IPv6 = [], FetchedIPv4 = True, FetchedIPv6 = False\<rparr>], ttl = [''1234'' \<mapsto> 10], maxTTL = 60\<rparr>, 2), \<lparr>dials = [Some (''A1\<newline>2001:db8::/32\<newline>C\<newline>'', [])], conns = [\<lparr>rx = [], wr = [], tx = [''!!\<newline>'', ''!gAS1234\<newline>'', ''exit\<newline>''], closed = True\<rparr>]\<rparr>) \<and>
   \<lparr>dials = [Some (''A1\<newline>2001:db8::/32\<newline>C\<newline>'', [])], conns = [\<lparr>rx = [], wr = [], tx = [''!!\<newline>'', ''!gAS1234\<newline>'', ''exit\<newline>''], closed = True\<rparr>]\<rparr> \<noteq> \<lparr>dials = [Some (''A1\<newline>1.2.3.0/24\<newline>C\<newline>'', []), Some (''A1\<newline>2001:db8::/32\<newline>C\<newline>'', [])], conns = []\<rparr> \<and>
   (\<lambda>k. 10 * int k) 2 - the (ttl \<lparr>stor = [''1234'' \<mapsto> \<lparr>AS = ''1234'', IPv4 = [\<lparr>IP = [1, 2, 3, 0], Mask = [255, 255, 255, 0]\<rparr>], IPv6 = [], FetchedIPv4 = True, FetchedIPv6 = False\<rparr>], ttl = [''1234'' \<mapsto> 10], maxTTL = 60\<rparr> ''1234'') \<le> maxTTL \<lparr>stor = [''1234'' \<mapsto> \<lparr>AS = ''1234'', IPv4 = [\<lparr>IP = [1, 2, 3, 0], Mask = [255, 255, 255, 0]\<rparr>], IPv6 = [], FetchedIPv4 = True, FetchedIPv6 = False\<rparr>], ttl = [''1234'' \<mapsto> 10], maxTTL = 60\<rparr> \<and>
   cachedFetcher_Fetch \<lparr>host = ''whois.radb.net'', port = 43\<rparr> (memory_Storage (\<lambda>k. 10 * int k)) ParseCIDR_sample False True [''1234''] ((\<lparr>stor = [''1234'' \<mapsto> \<lparr>AS = ''1234'', IPv4 = [\<lparr>IP = [1, 2, 3, 0], Mask = [255, 255, 255, 0]\<rparr>], IPv6 = [], FetchedIPv4 = True, FetchedIPv6 = False\<rparr>], ttl = [''1234'' \<mapsto> 10], maxTTL = 60\<rparr>, 2), \<lparr>dials = [Some (''A1\<newline>2001:db8::/32\<newline>C\<newline>'', [])], conns = [\<lparr>rx = [], wr = [], tx = [''!!\<newline>'', ''!gAS1234\<newline>'', ''exit\<newline>''], closed = True\<rparr>]\<rparr>) = (Return [(''1234'', \<lparr>nets_ipv4 = [], nets_ipv6 = [\<lparr>IP = [0x20, 0x01, 0x0d, 0xb8, 0, 0, 0, 0, 0, 0, 0, 0, 0, 0, 0, 0], Mask = [255, 255, 255, 255, 0, 0, 0, 0, 0, 0, 0, 0, 0, 0, 0, 0]\<rparr>]\<rparr>)], (\<lparr>stor = [''1234'' \<mapsto> \<lparr>AS = ''1234'', IPv4 = [], IPv6 = [\<lparr>IP = [0x20, 0x01, 0x0d, 0xb8, 0, 0, 0, 0, 0, 0, 0, 0, 0, 0, 0, 0], Mask = [255, 255, 255, 255, 0, 0, 0, 0, 0, 0, 0, 0, 0, 0, 0, 0]\<rparr>], FetchedIPv4 = False, FetchedIPv6 = True\<rparr>], ttl = [''1234'' \<mapsto> 30], maxTTL = 60\<rparr>, 4), \<lparr>dials = [], conns = [\<lparr>rx = [], wr = [], tx = [''!!\<newline>'', ''!gAS1234\<newline>'', ''exit\<newline>''], closed = True\<rparr>, \<lparr>rx = [], wr = [], tx = [''!!\<newline>'', ''!6AS1234\<newline>'', ''exit\<newline>''], closed = True\<rparr>]\<rparr>) \<and>
   (\<exists>r. fst (memory_Get \<lparr>stor = [''1234'' \<mapsto> \<lparr>AS = ''1234'', IPv4 = [\<lparr>IP = [1, 2, 3, 0], Mask = [255, 255, 255, 0]\<rparr>], IPv6 = [], FetchedIPv4 = True, FetchedIPv6 = False\<rparr>], ttl = [''1234'' \<mapsto> 10], maxTTL = 60\<rparr> ((\<lambda>k. 10 * int k) 2) ''1234'') = (r, None) \<and> FetchedIPv4 r \<and> \<not> FetchedIPv6 r) \<and>
   cached_loop (memory_Storage (\<lambda>k. 10 * int k)) False True [''1234''] [] [] (\<lparr>stor = [''1234'' \<mapsto> \<lparr>AS = ''1234'', IPv4 = [\<lparr>IP = [1, 2, 3, 0], Mask = [255, 255, 255, 0]\<rparr>], IPv6 = [], FetchedIPv4 = True, FetchedIPv6 = False\<rparr>], ttl = [''1234'' \<mapsto> 10], maxTTL = 60\<rparr>, 2) =
     (Inr ([], [''1234'']), (\<lparr>stor = [''1234'' \<mapsto> \<lparr>AS = ''1234'', IPv4 = [\<lparr>IP = [1, 2, 3, 0], Mask = [255, 255, 255, 0]\<rparr>], IPv6 = [], FetchedIPv4 = True, FetchedIPv6 = False\<rparr>], ttl = [''1234'' \<mapsto> 10], maxTTL = 60\<rparr>, Suc 2)) \<and>
   (\<exists>r c. Fetch \<lparr>host = ''whois.radb.net'', port = 43\<rparr> ParseCIDR_sample False True [''1234''] \<lparr>dials = [Some (''A1\<newline>2001:db8::/32\<newline>C\<newline>'', [])], conns = [\<lparr>rx = [], wr = [], tx = [''!!\<newline>'', ''!gAS1234\<newline>'', ''exit\<newline>''], closed = True\<rparr>]\<rparr> = (Return r, \<lparr>dials = [], conns = [\<lparr>rx = [], wr = [], tx = [''!!\<newline>'', ''!gAS1234\<newline>'', ''exit\<newline>''], closed = True\<rparr>, \<lparr>rx = [], wr = [], tx = [''!!\<newline>'', ''!6AS1234\<newline>'', ''exit\<newline>''], closed = True\<rparr>]\<rparr>) \<and>
      conns \<lparr>dials = [], conns = [\<lparr>rx = [], wr = [], tx = [''!!\<newline>'', ''!gAS1234\<newline>'', ''exit\<newline>''], closed = True\<rparr>, \<lparr>rx = [], wr = [], tx = [''!!\<newline>'', ''!6AS1234\<newline>'', ''exit\<newline>''], closed = True\<rparr>]\<rparr> = conns \<lparr>dials = [Some (''A1\<newline>2001:db8::/32\<newline>C\<newline>'', [])], conns = [\<lparr>rx = [], wr = [], tx = [''!!\<newline>'', ''!gAS1234\<newline>'', ''exit\<newline>''], closed = True\<rparr>]\<rparr> @ [c]) \<and>
   (\<exists>r. stor \<lparr>stor = [''1234'' \<mapsto> \<lparr>AS = ''1234'', IPv4 = [], IPv6 = [\<lparr>IP = [0x20, 0x01, 0x0d, 0xb8, 0, 0, 0, 0, 0, 0, 0, 0, 0, 0, 0, 0], Mask = [255, 255, 255, 255, 0, 0, 0, 0, 0, 0, 0, 0, 0, 0, 0, 0]\<rparr>], FetchedIPv4 = False, FetchedIPv6 = True\<rparr>], ttl = [''1234'' \<mapsto> 30], maxTTL = 60\<rparr> ''1234'' = Some r \<and> \<not> FetchedIPv4 r \<and> FetchedIPv6 r \<and> IPv4 r = [])"
proof -
  have F1: "Fetch \<lparr>host = ''whois.radb.net'', port = 43\<rparr> ParseCIDR_sample True False [''1234''] \<lparr>dials = [Some (''A1\<newline>1.2.3.0/24\<newline>C\<newline>'', []), Some (''A1\<newline>2001:db8::/32\<newline>C\<newline>'', [])], conns = []\<rparr> = (Return [(''1234'', \<lparr>nets_ipv4 = [\<lparr>IP = [1, 2, 3, 0], Mask = [255, 255, 255, 0]\<rparr>], nets_ipv6 = []\<rparr>)], \<lparr>dials = [Some (''A1\<newline>2001:db8::/32\<newline>C\<newline>'', [])], conns = [\<lparr>rx = [], wr = [], tx = [''!!\<newline>'', ''!gAS1234\<newline>'', ''exit\<newline>''], closed = True\<rparr>]\<rparr>)" by code_simp
  have F2: "Fetch \<lparr>host = ''whois.radb.net'', port = 43\<rparr> ParseCIDR_sample False True [''1234''] \<lparr>dials = [Some (''A1\<newline>2001:db8::/32\<newline>C\<newline>'', [])], conns = [\<lparr>rx = [], wr = [], tx = [''!!\<newline>'', ''!gAS1234\<newline>'', ''exit\<newline>''], closed = True\<rparr>]\<rparr> = (Return [(''1234'', \<lparr>nets_ipv4 = [], nets_ipv6 = [\<lparr>IP = [0x20, 0x01, 0x0d, 0xb8, 0, 0, 0, 0, 0, 0, 0, 0, 0, 0, 0, 0], Mask = [255, 255, 255, 255, 0, 0, 0, 0, 0, 0, 0, 0, 0, 0, 0, 0]\<rparr>]\<rparr>)], \<lparr>dials = [], conns = [\<lparr>rx = [], wr = [], tx = [''!!\<newline>'', ''!gAS1234\<newline>'', ''exit\<newline>''], closed = True\<rparr>, \<lparr>rx = [], wr = [], tx = [''!!\<newline>'', ''!6AS1234\<newline>'', ''exit\<newline>''], closed = True\<rparr>]\<rparr>)" by code_simp
  have h1: "cachedFetcher_Fetch \<lparr>host = ''whois.radb.net'', port = 43\<rparr> (memory_Storage (\<lambda>k. 10 * int k)) ParseCIDR_sample True False [''1234''] ((\<lparr>stor = Map.empty, ttl = Map.empty, maxTTL = 60\<rparr>, 0), \<lparr>dials = [Some (''A1\<newline>1.2.3.0/24\<newline>C\<newline>'', []), Some (''A1\<newline>2001:db8::/32\<newline>C\<newline>'', [])], conns = []\<rparr>) = (Return [(''1234'', \<lparr>nets_ipv4 = [\<lparr>IP = [1, 2, 3, 0], Mask = [255, 255, 255, 0]\<rparr>], nets_ipv6 = []\<rparr>)], (\<lparr>stor = [''1234'' \<mapsto> \<lparr>AS = ''1234'', IPv4 = [\<lparr>IP = [1, 2, 3, 0], Mask = [255, 255, 255, 0]\<rparr>], IPv6 = [], FetchedIPv4 = True, FetchedIPv6 = False\<rparr>], ttl = [''1234'' \<mapsto> 10], maxTTL = 60\<rparr>, 2), \<lparr>dials = [Some (''A1\<newline>2001:db8::/32\<newline>C\<newline>'', [])], conns = [\<lparr>rx = [], wr = [], tx = [''!!\<newline>'', ''!gAS1234\<newline>'', ''exit\<newline>''], closed = True\<rparr>]\<rparr>)"
    by (simp add: cachedFetcher_Fetch_def memory_Storage_def memory_Get_def memory_Set_def F1)
  have h2: "\<lparr>dials = [Some (''A1\<newline>2001:db8::/32\<newline>C\<newline>'', [])], conns = [\<lparr>rx = [], wr = [], tx = [''!!\<newline>'', ''!gAS1234\<newline>'', ''exit\<newline>''], closed = True\<rparr>]\<rparr> \<noteq> \<lparr>dials = [Some (''A1\<newline>1.2.3.0/24\<newline>C\<newline>'', []), Some (''A1\<newline>2001:db8::/32\<newline>C\<newline>'', [])], conns = []\<rparr>" by simp
  have h3: "(\<lambda>k. 10 * int k) 2 - the (ttl \<lparr>stor = [''1234'' \<mapsto> \<lparr>AS = ''1234'', IPv4 = [\<lparr>IP = [1, 2, 3, 0], Mask = [255, 255, 255, 0]\<rparr>], IPv6 = [], FetchedIPv4 = True, FetchedIPv6 = False\<rparr>], ttl = [''1234'' \<mapsto> 10], maxTTL = 60\<rparr> ''1234'') \<le> maxTTL \<lparr>stor = [''1234'' \<mapsto> \<lparr>AS = ''1234'', IPv4 = [\<lparr>IP = [1, 2, 3, 0], Mask = [255, 255, 255, 0]\<rparr>], IPv6 = [], FetchedIPv4 = True, FetchedIPv6 = False\<rparr>], ttl = [''1234'' \<mapsto> 10], maxTTL = 60\<rparr>" by simp
  have h4: "cachedFetcher_Fetch \<lparr>host = ''whois.radb.net'', port = 43\<rparr> (memory_Storage (\<lambda>k. 10 * int k)) ParseCIDR_sample False True [''1234''] ((\<lparr>stor = [''1234'' \<mapsto> \<lparr>AS = ''1234'', IPv4 = [\<lparr>IP = [1, 2, 3, 0], Mask = [255, 255, 255, 0]\<rparr>], IPv6 = [], FetchedIPv4 = True, FetchedIPv6 = False\<rparr>], ttl = [''1234'' \<mapsto> 10], maxTTL = 60\<rparr>, 2), \<lparr>dials = [Some (''A1\<newline>2001:db8::/32\<newline>C\<newline>'', [])], conns = [\<lparr>rx = [], wr = [], tx = [''!!\<newline>'', ''!gAS1234\<newline>'', ''exit\<newline>''], closed = True\<rparr>]\<rparr>) = (Return [(''1234'', \<lparr>nets_ipv4 = [], nets_ipv6 = [\<lparr>IP = [0x20, 0x01, 0x0d, 0xb8, 0, 0, 0, 0, 0, 0, 0, 0, 0, 0, 0, 0], Mask = [255, 255, 255, 255, 0, 0, 0, 0, 0, 0, 0, 0, 0, 0, 0, 0]\<rparr>]\<rparr>)], (\<lparr>stor = [''1234'' \<mapsto> \<lparr>AS = ''1234'', IPv4 = [], IPv6 = [\<lparr>IP = [0x20, 0x01, 0x0d, 0xb8, 0, 0, 0, 0, 0, 0, 0, 0, 0, 0, 0, 0], Mask = [255, 255, 255, 255, 0, 0, 0, 0, 0, 0, 0, 0, 0, 0, 0, 0]\<rparr>], FetchedIPv4 = False, FetchedIPv6 = True\<rparr>], ttl = [''1234'' \<mapsto> 30], maxTTL = 60\<rparr>, 4), \<lparr>dials = [], conns = [\<lparr>rx = [], wr = [], tx = [''!!\<newline>'', ''!gAS1234\<newline>'', ''exit\<newline>''], closed = True\<rparr>, \<lparr>rx = [], wr = [], tx = [''!!\<newline>'', ''!6AS1234\<newline>'', ''exit\<newline>''], closed = True\<rparr>]\<rparr>)"
    by (simp add: cachedFetcher_Fetch_def memory_Storage_def memory_Get_def memory_Set_def F2)
  note th = refetch_overwrites_flags [OF h1 h2 h3 h4]
  note t1 = th [THEN conjunct1]
    and t2 = th [THEN conjunct2, THEN conjunct1]
    and t3 = th [THEN conjunct2, THEN conjunct2, THEN conjunct1]
    and t4 = th [THEN conjunct2, THEN conjunct2, THEN conjunct2]
  from h1 h2 h3 h4 t1 t2 t3 t4 show ?thesis by (intro conjI)
qed

end
